theory Spec2Isabelle
  imports Complex_Main "HOL-Library.Stream" "HOL-Library.AList" "HOL-Library.Log_Nat"
begin

section \<open>The log generator of generate\_logs.py\<close>

text \<open>
  The script builds one log record per call of \<open>generate_log_event\<close> from calls of
  Python's \<open>random\<close> module and one reading of the wall clock, and \<open>produce_logs\<close>
  hands every record to a Kafka producer. The model makes both inputs explicit: the
  world holds the raw outputs the generator will give, one per call of \<open>random()\<close> or
  \<open>getrandbits\<close>, and the clock readings still to come; every call consumes the head
  of the stream it reads, and every function returns the world it leaves behind. An
  exception is a value \<open>Inl e\<close>. A computation that contains the rejection loop of
  \<open>_randbelow\<close> has an option type: \<open>None\<close> is the run that never leaves the loop.
  The library functions are those of CPython 3.11.
\<close>

subsection \<open>Python values, errors, the world\<close>

text \<open>
  A float is a double: a finite value, which is a rational number, an infinity or a
  NaN. The two zeros are one value; nothing here divides or prints a zero.
\<close>

datatype pyfloat = Finite rat | PosInf | NegInf | NaN

datatype number = IntN int | FloatN pyfloat

datatype pyval = PStr string | PInt int | PFloat pyfloat | PNone

datatype error = IndexError | KeyError | ValueError | OverflowError

type_synonym 'a result = "error + 'a"

type_synonym log_event = "(string \<times> pyval) list"

record datetime =
  year :: nat
  month :: nat
  day :: nat
  hour :: nat
  minute :: nat
  second :: nat
  microsecond :: nat

record world =
  rng :: "nat stream"
  clock :: "datetime stream"

type_synonym 'a comp = "('a \<times> world) result option"

definition rbind :: "'a comp \<Rightarrow> ('a \<Rightarrow> world \<Rightarrow> 'c result option) \<Rightarrow> 'c result option" where
  "rbind m f =
     (case m of None \<Rightarrow> None | Some (Inl e) \<Rightarrow> Some (Inl e) | Some (Inr (x, w)) \<Rightarrow> f x w)"

definition dict_get :: "('k \<times> 'v) list \<Rightarrow> 'k \<Rightarrow> 'v result" where
  "dict_get d k = (case map_of d k of None \<Rightarrow> Inl KeyError | Some v \<Rightarrow> Inr v)"

subsection \<open>Double-precision arithmetic\<close>

text \<open>
  Every operation returns the double nearest to the exact result, ties to the even
  significand. A double has 53 significant bits and a least exponent of \<open>- 1074\<close>
  for its last bit, below which the subnormal numbers keep that spacing; a result that
  rounds to \<open>2 ^ 1024\<close> or more in magnitude is an infinity.
\<close>

definition round_half_even :: "rat \<Rightarrow> int" where
  "round_half_even x =
     (let f = \<lfloor>x\<rfloor>; d = x - of_int f
      in if d < 1 / 2 then f else if 1 / 2 < d then f + 1
         else if even f then f else f + 1)"

definition floor_log2 :: "rat \<Rightarrow> int" where
  "floor_log2 x =
     (case quotient_of x of (p, q) \<Rightarrow>
        let d = bitlen p - bitlen q in if 2 powi d \<le> x then d else d - 1)"

definition double_of :: "rat \<Rightarrow> pyfloat" where
  "double_of x =
     (if x = 0 then Finite 0
      else let e = max (floor_log2 \<bar>x\<bar> - 52) (- 1074);
               y = of_int (round_half_even (x / 2 powi e)) * 2 powi e
           in if 1024 \<le> floor_log2 \<bar>y\<bar> then (if 0 < x then PosInf else NegInf)
              else Finite y)"

definition isfinite :: "pyfloat \<Rightarrow> bool" where
  "isfinite x = (case x of Finite a \<Rightarrow> True | _ \<Rightarrow> False)"

definition fneg :: "pyfloat \<Rightarrow> pyfloat" where
  "fneg x = (case x of Finite a \<Rightarrow> Finite (- a) | PosInf \<Rightarrow> NegInf | NegInf \<Rightarrow> PosInf
             | NaN \<Rightarrow> NaN)"

definition fadd :: "pyfloat \<Rightarrow> pyfloat \<Rightarrow> pyfloat" where
  "fadd x y =
     (case x of
        Finite a \<Rightarrow> (case y of Finite b \<Rightarrow> double_of (a + b) | _ \<Rightarrow> y)
      | PosInf \<Rightarrow> (case y of NegInf \<Rightarrow> NaN | NaN \<Rightarrow> NaN | _ \<Rightarrow> PosInf)
      | NegInf \<Rightarrow> (case y of PosInf \<Rightarrow> NaN | NaN \<Rightarrow> NaN | _ \<Rightarrow> NegInf)
      | NaN \<Rightarrow> NaN)"

definition fsub :: "pyfloat \<Rightarrow> pyfloat \<Rightarrow> pyfloat" where
  "fsub x y = fadd x (fneg y)"

definition fpositive :: "pyfloat \<Rightarrow> bool" where
  "fpositive x = (case x of Finite a \<Rightarrow> 0 < a | PosInf \<Rightarrow> True | _ \<Rightarrow> False)"

definition fmul :: "pyfloat \<Rightarrow> pyfloat \<Rightarrow> pyfloat" where
  "fmul x y =
     (case (x, y) of
        (Finite a, Finite b) \<Rightarrow> double_of (a * b)
      | _ \<Rightarrow> if x = NaN \<or> y = NaN \<or> x = Finite 0 \<or> y = Finite 0 then NaN
             else if fpositive x = fpositive y then PosInf else NegInf)"

text \<open>The comparisons \<open><\<close> and \<open><=\<close> of two floats; both are false at a NaN.\<close>

definition flt :: "pyfloat \<Rightarrow> pyfloat \<Rightarrow> bool" where
  "flt x y =
     (case x of
        Finite a \<Rightarrow> (case y of Finite b \<Rightarrow> a < b | PosInf \<Rightarrow> True | _ \<Rightarrow> False)
      | NegInf \<Rightarrow> (case y of Finite b \<Rightarrow> True | PosInf \<Rightarrow> True | _ \<Rightarrow> False)
      | _ \<Rightarrow> False)"

definition fle :: "pyfloat \<Rightarrow> pyfloat \<Rightarrow> bool" where
  "fle x y = (x \<noteq> NaN \<and> y \<noteq> NaN \<and> (x = y \<or> flt x y))"

text \<open>
  \<open>round(x, ndigits)\<close> on a float, for \<open>ndigits \<ge> 0\<close>: an infinity or a NaN is
  returned as it is; a finite \<open>x\<close> is printed with \<open>ndigits\<close> decimals, correctly
  rounded from the exact value of the double (ties to even), and the decimal string is
  read back as the nearest double.
\<close>

definition py_round :: "pyfloat \<Rightarrow> nat \<Rightarrow> pyfloat" where
  "py_round x ndigits =
     (case x of
        Finite a \<Rightarrow> double_of (of_int (round_half_even (a * 10 ^ ndigits)) / 10 ^ ndigits)
      | _ \<Rightarrow> x)"

text \<open>
  The numbers a weight can be: an int or a float. \<open>int + int\<close> is exact;
  \<open>int + float\<close> converts the int, which raises OverflowError when the int is too
  large for a double; a float is compared with an int by their exact values.
\<close>

definition int_to_float :: "int \<Rightarrow> pyfloat result" where
  "int_to_float i = (case double_of (of_int i) of Finite a \<Rightarrow> Inr (Finite a) | _ \<Rightarrow> Inl OverflowError)"

definition add_float :: "number \<Rightarrow> pyfloat \<Rightarrow> pyfloat result" where
  "add_float x b =
     (case x of
        IntN i \<Rightarrow> (case int_to_float i of Inl e \<Rightarrow> Inl e | Inr a \<Rightarrow> Inr (fadd a b))
      | FloatN a \<Rightarrow> Inr (fadd a b))"

definition py_add :: "number \<Rightarrow> number \<Rightarrow> number result" where
  "py_add x y =
     (case y of
        FloatN b \<Rightarrow> (case add_float x b of Inl e \<Rightarrow> Inl e | Inr c \<Rightarrow> Inr (FloatN c))
      | IntN j \<Rightarrow>
          (case x of
             IntN i \<Rightarrow> Inr (IntN (i + j))
           | FloatN a \<Rightarrow>
               (case int_to_float j of Inl e \<Rightarrow> Inl e | Inr b \<Rightarrow> Inr (FloatN (fadd a b)))))"

definition float_lt_number :: "pyfloat \<Rightarrow> number \<Rightarrow> bool" where
  "float_lt_number x y = (case y of IntN j \<Rightarrow> flt x (Finite (of_int j)) | FloatN b \<Rightarrow> flt x b)"

subsection \<open>The calls of the random module\<close>

text \<open>
  The generator has two primitives. \<open>random()\<close> is \<open>k / 2 ^ 53\<close> with
  \<open>k < 2 ^ 53\<close>, and \<open>getrandbits(k)\<close> is a number below \<open>2 ^ k\<close>; each takes
  the next raw output and reduces it to its range. The other calls are the Python code
  of \<open>random.py\<close>: \<open>_randbelow(n)\<close> draws \<open>n.bit_length()\<close> bits until the
  number drawn is below \<open>n\<close>; \<open>choice\<close> raises IndexError on an empty sequence and
  indexes it with \<open>_randbelow\<close> otherwise; \<open>randint(a, b)\<close> is
  \<open>randrange(a, b + 1)\<close>, which raises ValueError on an empty range and adds
  \<open>_randbelow(width)\<close> to \<open>a\<close> otherwise; \<open>randbytes(n)\<close> is
  \<open>getrandbits(8 * n)\<close> in \<open>n\<close> little-endian bytes; \<open>uniform(a, b)\<close> is
  \<open>a + (b - a) * random()\<close>.
\<close>

definition random_random :: "world \<Rightarrow> pyfloat \<times> world" where
  "random_random w =
     (Finite (of_nat (shd (rng w) mod 2 ^ 53) / 2 ^ 53), w\<lparr>rng := stl (rng w)\<rparr>)"

definition getrandbits :: "nat \<Rightarrow> world \<Rightarrow> nat \<times> world" where
  "getrandbits k w = (shd (rng w) mod 2 ^ k, w\<lparr>rng := stl (rng w)\<rparr>)"

definition bit_length :: "nat \<Rightarrow> nat" where
  "bit_length n = nat (bitlen (int n))"

partial_function (option) randbelow_loop :: "nat \<Rightarrow> nat \<Rightarrow> world \<Rightarrow> (nat \<times> world) option" where
  "randbelow_loop n k w =
     (let p = getrandbits k w
      in if n \<le> fst p then randbelow_loop n k (snd p) else Some p)"

definition randbelow :: "nat \<Rightarrow> world \<Rightarrow> (nat \<times> world) option" where
  "randbelow n w = randbelow_loop n (bit_length n) w"

definition random_choice :: "'a list \<Rightarrow> world \<Rightarrow> 'a comp" where
  "random_choice seq w =
     (if length seq = 0 then Some (Inl IndexError)
      else case randbelow (length seq) w of
             None \<Rightarrow> None
           | Some (i, w') \<Rightarrow> if i < length seq then Some (Inr (seq ! i, w'))
                             else Some (Inl IndexError))"

definition randrange :: "int \<Rightarrow> int \<Rightarrow> world \<Rightarrow> int comp" where
  "randrange start stop w =
     (let width = stop - start
      in if 0 < width
         then case randbelow (nat width) w of
                None \<Rightarrow> None
              | Some (r, w') \<Rightarrow> Some (Inr (start + int r, w'))
         else Some (Inl ValueError))"

definition randint :: "int \<Rightarrow> int \<Rightarrow> world \<Rightarrow> int comp" where
  "randint a b w = randrange a (b + 1) w"

definition to_bytes_little :: "nat \<Rightarrow> nat \<Rightarrow> nat list" where
  "to_bytes_little x n = map (\<lambda>i. x div 256 ^ i mod 256) [0..<n]"

definition randbytes :: "nat \<Rightarrow> world \<Rightarrow> nat list \<times> world" where
  "randbytes n w = (case getrandbits (n * 8) w of (x, w') \<Rightarrow> (to_bytes_little x n, w'))"

definition uniform :: "pyfloat \<Rightarrow> pyfloat \<Rightarrow> world \<Rightarrow> pyfloat \<times> world" where
  "uniform a b w =
     (case random_random w of (r, w') \<Rightarrow> (fadd a (fmul (fsub b a) r), w'))"

text \<open>
  \<open>random.choices(population, weights)\<close> with \<open>k = 1\<close>:
  \<open>itertools.accumulate\<close> gives the running sums of the weights, the last of them
  plus \<open>0.0\<close> is the total, a total that is not positive or not finite raises
  ValueError, and \<open>bisect\<close> looks for \<open>random() * total\<close> among the running sums
  below index \<open>n - 1\<close>.
\<close>

fun accumulate_from :: "number \<Rightarrow> number list \<Rightarrow> number list result" where
  "accumulate_from acc [] = Inr []"
| "accumulate_from acc (x # xs) =
     (case py_add acc x of
        Inl e \<Rightarrow> Inl e
      | Inr t \<Rightarrow> (case accumulate_from t xs of Inl e \<Rightarrow> Inl e | Inr ts \<Rightarrow> Inr (t # ts)))"

fun accumulate :: "number list \<Rightarrow> number list result" where
  "accumulate [] = Inr []"
| "accumulate (x # xs) =
     (case accumulate_from x xs of Inl e \<Rightarrow> Inl e | Inr ts \<Rightarrow> Inr (x # ts))"

function bisect_right :: "number list \<Rightarrow> pyfloat \<Rightarrow> nat \<Rightarrow> nat \<Rightarrow> nat" where
  "bisect_right a x lo hi =
     (if lo < hi
      then let mid = (lo + hi) div 2
           in if float_lt_number x (a ! mid) then bisect_right a x lo mid
              else bisect_right a x (mid + 1) hi
      else lo)"
  by pat_completeness auto
termination
  by (relation "measure (\<lambda>(a, x, lo, hi). hi - lo)") auto

declare bisect_right.simps [simp del]

definition random_choices :: "'a list \<Rightarrow> number list \<Rightarrow> world \<Rightarrow> ('a list \<times> world) result" where
  "random_choices population weights w =
     (let n = length population
      in case accumulate weights of
           Inl e \<Rightarrow> Inl e
         | Inr cum_weights \<Rightarrow>
             if length cum_weights \<noteq> n then Inl ValueError
             else if cum_weights = [] then Inl IndexError
             else case add_float (last cum_weights) (Finite 0) of
                    Inl e \<Rightarrow> Inl e
                  | Inr tot \<Rightarrow>
                      if fle tot (Finite 0) then Inl ValueError
                      else if \<not> isfinite tot then Inl ValueError
                      else case random_random w of (r, w') \<Rightarrow>
                        let i = bisect_right cum_weights (fmul r tot) 0 (n - 1)
                        in if i < n then Inr ([population ! i], w') else Inl IndexError)"

subsection \<open>Strings\<close>

definition digit_char :: "nat \<Rightarrow> char" where
  "digit_char n = ''0123456789abcdef'' ! n"

fun str_nat :: "nat \<Rightarrow> string" where
  "str_nat n = (if n < 10 then [digit_char n] else str_nat (n div 10) @ [digit_char (n mod 10)])"

declare str_nat.simps [simp del]

definition str_int :: "int \<Rightarrow> string" where
  "str_int i = (if i < 0 then CHR ''-'' # str_nat (nat (- i)) else str_nat (nat i))"

definition zero_pad :: "nat \<Rightarrow> nat \<Rightarrow> string" where
  "zero_pad width n = replicate (width - length (str_nat n)) CHR ''0'' @ str_nat n"

definition bytes_hex :: "nat list \<Rightarrow> string" where
  "bytes_hex bs = concat (map (\<lambda>b. [digit_char (b div 16), digit_char (b mod 16)]) bs)"

function replace_nonempty :: "string \<Rightarrow> string \<Rightarrow> string \<Rightarrow> string" where
  "replace_nonempty old new s =
     (if s = [] \<or> old = [] then s
      else if take (length old) s = old
           then new @ replace_nonempty old new (drop (length old) s)
           else hd s # replace_nonempty old new (tl s))"
  by pat_completeness auto
termination
  by (relation "measure (\<lambda>(old, new, s). length s)") (auto simp: neq_Nil_conv)

declare replace_nonempty.simps [simp del]

definition str_replace :: "string \<Rightarrow> string \<Rightarrow> string \<Rightarrow> string" where
  "str_replace s old new =
     (if old = [] then new @ concat (map (\<lambda>c. c # new) s)
      else replace_nonempty old new s)"

text \<open>
  \<open>datetime.now(timezone.utc)\<close> reads the clock; \<open>isoformat()\<close> of an aware UTC
  value prints the date, \<open>T\<close>, the time, the microseconds when they are not zero, and
  the offset \<open>+00:00\<close>.
\<close>

definition datetime_now :: "world \<Rightarrow> datetime \<times> world" where
  "datetime_now w = (shd (clock w), w\<lparr>clock := stl (clock w)\<rparr>)"

definition isoformat :: "datetime \<Rightarrow> string" where
  "isoformat d =
     zero_pad 4 (year d) @ ''-'' @ zero_pad 2 (month d) @ ''-'' @ zero_pad 2 (day d) @ ''T'' @
     zero_pad 2 (hour d) @ '':'' @ zero_pad 2 (minute d) @ '':'' @ zero_pad 2 (second d) @
     (if microsecond d \<noteq> 0 then ''.'' @ zero_pad 6 (microsecond d) else '''') @ ''+00:00''"

subsection \<open>The catalogs\<close>

definition SERVICES :: "string list" where
  "SERVICES =
     [''web-api'', ''auth-service'', ''db-service'', ''payment-service'',
      ''inventory-service'', ''notification-service'', ''search-service'',
      ''analytics-service'']"

definition HOSTS :: "(string \<times> string list) list" where
  "HOSTS =
     [(''web-api'', [''api-server-01'', ''api-server-02'', ''api-server-03'']),
      (''auth-service'', [''auth-server-01'', ''auth-server-02'']),
      (''db-service'', [''db-server-01'']),
      (''payment-service'', [''payment-server-01'', ''payment-server-02'']),
      (''inventory-service'', [''inventory-server-01'', ''inventory-server-02'']),
      (''notification-service'', [''notif-server-01'']),
      (''search-service'', [''search-server-01'', ''search-server-02'']),
      (''analytics-service'', [''analytics-server-01''])]"

definition LOG_LEVELS :: "(string \<times> number) list" where
  "LOG_LEVELS =
     [(''INFO'', FloatN (double_of (70 / 100))),
      (''WARN'', FloatN (double_of (20 / 100))),
      (''ERROR'', FloatN (double_of (10 / 100)))]"

definition INFO_MESSAGES :: "string list" where
  "INFO_MESSAGES =
     [''Request processed successfully'', ''User authentication successful'',
      ''GET /api/v1/products'', ''POST /api/v1/orders'', ''PUT /api/v1/cart'',
      ''DELETE /api/v1/cart/items'', ''GET /api/v1/users/profile'',
      ''Search query executed'', ''Payment processed'', ''Email notification sent'',
      ''SMS notification sent'', ''Daily report generated'',
      ''Cache refreshed successfully'', ''Session created'',
      ''File uploaded successfully'']"

definition WARN_MESSAGES :: "string list" where
  "WARN_MESSAGES =
     [''Query execution took longer than expected'',
      ''Low stock alert for product SKU-12345'',
      ''Multiple failed login attempts detected'',
      ''Connection pool nearly exhausted'', ''Payment declined'',
      ''Rate limit approaching threshold'', ''Memory usage above 80%'',
      ''Disk space running low'']"

definition ERROR_MESSAGES :: "(string \<times> string) list" where
  "ERROR_MESSAGES =
     [(''Database connection timeout'', ''ConnectionTimeout''),
      (''Payment gateway timeout'', ''GatewayTimeout''),
      (''Deadlock detected in transaction'', ''DeadlockDetected''),
      (''Failed to update inventory count'', ''ConcurrencyException''),
      (''Internal server error'', ''NullPointerException''),
      (''Service unavailable'', ''ServiceUnavailable''),
      (''Authentication failed'', ''AuthenticationError''),
      (''Invalid input data'', ''ValidationError'')]"

definition STATUS_CODES :: "(string \<times> int list) list" where
  "STATUS_CODES =
     [(''INFO'', [200, 201, 204]),
      (''WARN'', [200, 402]),
      (''ERROR'', [500, 503, 504, 409])]"

subsection \<open>weighted\_choice and generate\_log\_event\<close>

text \<open>
  \<open>weighted_choice\<close> has no loop, so its result is a value or an exception. The
  subscript \<open>[0]\<close> raises IndexError on an empty list.
\<close>

definition weighted_choice :: "('a \<times> number) list \<Rightarrow> world \<Rightarrow> ('a \<times> world) result" where
  "weighted_choice choices w =
     (let items = map fst choices; weights = map snd choices
      in case random_choices items weights w of
           Inl e \<Rightarrow> Inl e
         | Inr (picked, w') \<Rightarrow> (case picked of [] \<Rightarrow> Inl IndexError | x # xs \<Rightarrow> Inr (x, w')))"

text \<open>
  The three branches of the \<open>if level == ...\<close> statement, each on the record built
  so far. An assignment \<open>log[k] = v\<close> keeps the position of a key the record has and
  appends a new one, which is \<open>AList.update\<close>.
\<close>

definition info_branch :: "string \<Rightarrow> log_event \<Rightarrow> world \<Rightarrow> log_event comp" where
  "info_branch service log0 w0 =
     rbind (random_choice INFO_MESSAGES w0) (\<lambda>message w1.
     let log1 = AList.update ''message'' (PStr message) log0 in
     rbind (randint 10 500 w1) (\<lambda>duration w2.
     let log2 = AList.update ''duration_ms'' (PInt duration) log1 in
     case dict_get STATUS_CODES ''INFO'' of Inl e \<Rightarrow> Some (Inl e) | Inr codes \<Rightarrow>
     rbind (random_choice codes w2) (\<lambda>code w3.
     let log3 = AList.update ''status_code'' (PInt code) log2 in
     case random_random w3 of (r1, w4) \<Rightarrow>
     rbind (if flt r1 (double_of (7 / 10))
            then rbind (randint 10000 99999 w4) (\<lambda>u w.
                   Some (Inr (AList.update ''user_id'' (PStr (''user-'' @ str_int u)) log3, w)))
            else Some (Inr (log3, w4))) (\<lambda>log4 w5.
     case random_random w5 of (r2, w6) \<Rightarrow>
     rbind (if flt r2 (double_of (5 / 10)) \<and> service = ''web-api''
            then rbind (randint 1 255 w6) (\<lambda>a w.
                 rbind (randint 1 255 w) (\<lambda>b w'.
                   Some (Inr (AList.update ''ip_address''
                          (PStr (''192.168.'' @ str_int a @ ''.'' @ str_int b)) log4, w'))))
            else Some (Inr (log4, w6))) (\<lambda>log5 w7.
     case random_random w7 of (r3, w8) \<Rightarrow>
     if flt r3 (double_of (3 / 10)) \<and> service = ''payment-service''
     then case uniform (double_of (999 / 100)) (double_of (99999 / 100)) w8 of (x, w9) \<Rightarrow>
            Some (Inr (AList.update ''amount'' (PFloat (py_round x 2)) log5, w9))
     else Some (Inr (log5, w8)))))))"

definition warn_branch :: "log_event \<Rightarrow> world \<Rightarrow> log_event comp" where
  "warn_branch log0 w0 =
     rbind (random_choice WARN_MESSAGES w0) (\<lambda>message w1.
     let log1 = AList.update ''message'' (PStr message) log0 in
     case dict_get STATUS_CODES ''WARN'' of Inl e \<Rightarrow> Some (Inl e) | Inr codes \<Rightarrow>
     rbind (random_choice codes w1) (\<lambda>code w2.
     let log2 = AList.update ''status_code'' (PInt code) log1 in
     case random_random w2 of (r1, w3) \<Rightarrow>
     rbind (if flt r1 (double_of (5 / 10))
            then rbind (randint 500 2000 w3) (\<lambda>duration w.
                   Some (Inr (AList.update ''duration_ms'' (PInt duration) log2, w)))
            else Some (Inr (log2, w3))) (\<lambda>log3 w4.
     case random_random w4 of (r2, w5) \<Rightarrow>
     if flt r2 (double_of (4 / 10))
     then rbind (randint 10000 99999 w5) (\<lambda>u w.
            Some (Inr (AList.update ''user_id'' (PStr (''user-'' @ str_int u)) log3, w)))
     else Some (Inr (log3, w5)))))"

definition error_branch :: "log_event \<Rightarrow> world \<Rightarrow> log_event comp" where
  "error_branch log0 w0 =
     rbind (random_choice ERROR_MESSAGES w0) (\<lambda>(message, error_type) w1.
     let log1 = AList.update ''message'' (PStr message) log0;
         log2 = AList.update ''error'' (PStr error_type) log1 in
     case dict_get STATUS_CODES ''ERROR'' of Inl e \<Rightarrow> Some (Inl e) | Inr codes \<Rightarrow>
     rbind (random_choice codes w1) (\<lambda>code w2.
     let log3 = AList.update ''status_code'' (PInt code) log2 in
     rbind (randint 1000 10000 w2) (\<lambda>duration w3.
       Some (Inr (AList.update ''duration_ms'' (PInt duration) log3, w3)))))"

definition generate_log_event :: "world \<Rightarrow> log_event comp" where
  "generate_log_event w0 =
     rbind (Some (weighted_choice LOG_LEVELS w0)) (\<lambda>level w1.
     rbind (random_choice SERVICES w1) (\<lambda>service w2.
     case dict_get HOSTS service of Inl e \<Rightarrow> Some (Inl e) | Inr hosts \<Rightarrow>
     rbind (random_choice hosts w2) (\<lambda>host w3.
     case datetime_now w3 of (now, w4) \<Rightarrow>
     case randbytes 4 w4 of (token, w5) \<Rightarrow>
     let log = [(''timestamp'', PStr (str_replace (isoformat now) ''+00:00'' ''Z'')),
                (''level'', PStr level),
                (''service'', PStr service),
                (''host'', PStr host),
                (''request_id'', PStr (''req-'' @ bytes_hex token))]
     in if level = ''INFO'' then info_branch service log w5
        else if level = ''WARN'' then warn_branch log w5
        else error_branch log w5)))"

subsection \<open>Auxiliary notions for the properties\<close>

text \<open>
  \<open>ensures m P\<close>: if the computation \<open>m\<close> ends, it has raised nothing, and its
  value and the world it leaves satisfy \<open>P\<close>. \<open>present ev k\<close>: the record has the
  key \<open>k\<close> with a value other than None. \<open>total_weight\<close> is the total that
  \<open>random.choices\<close> computes and tests: the last running sum plus \<open>0.0\<close>.
\<close>

definition ensures :: "'a comp \<Rightarrow> ('a \<Rightarrow> world \<Rightarrow> bool) \<Rightarrow> bool" where
  "ensures m P =
     (case m of None \<Rightarrow> True | Some (Inl e) \<Rightarrow> False | Some (Inr (x, w)) \<Rightarrow> P x w)"


definition total_weight :: "('a \<times> number) list \<Rightarrow> pyfloat result" where
  "total_weight choices =
     (case accumulate (map snd choices) of
        Inl e \<Rightarrow> Inl e
      | Inr cum_weights \<Rightarrow>
          if cum_weights = [] then Inl IndexError else add_float (last cum_weights) (Finite 0))"

text \<open>Two weights whose sum overflows the doubles.\<close>

definition huge :: rat where
  "huge = 2 ^ 1023"

definition huge_weights :: "(string \<times> number) list" where
  "huge_weights = [(''a'', FloatN (Finite huge)), (''b'', FloatN (Finite huge))]"


text \<open>
  Concrete worlds: the raw outputs of a list, then zeros; the clock stands still. The
  records that three of them produce, for the examples below.
\<close>

definition noon :: datetime where
  "noon = \<lparr>year = 2025, month = 1, day = 2, hour = 12, minute = 0, second = 0,
            microsecond = 0\<rparr>"

definition scripted :: "nat list \<Rightarrow> world" where
  "scripted draws = \<lparr>rng = draws @- sconst 0, clock = sconst noon\<rparr>"






section \<open>Rules for computations\<close>

lemma ensures_Inr: "P x w \<Longrightarrow> ensures (Some (Inr (x, w))) P"
  by (simp add: ensures_def)

lemma ensures_rbind:
  "ensures m (\<lambda>x w. ensures (f x w) Q) \<Longrightarrow> ensures (rbind m f) Q"
  by (auto simp: ensures_def rbind_def split: option.splits sum.splits)

lemma ensures_if:
  "(c \<Longrightarrow> ensures a Q) \<Longrightarrow> (\<not> c \<Longrightarrow> ensures b Q) \<Longrightarrow> ensures (if c then a else b) Q"
  by simp

lemma ensures_pair:
  "(\<And>x w'. ensures (f x w') Q) \<Longrightarrow> ensures (case m of (x, w') \<Rightarrow> f x w') Q"
  by (cases m) simp


lemma ensures_no_raise: "ensures m P \<Longrightarrow> m \<noteq> Some (Inl e)"
  by (auto simp: ensures_def)

text \<open>The rejection loop: what it returns is below \<open>n\<close>.\<close>

lemma randbelow_loop_below:
  assumes "randbelow_loop n k w = Some y"
  shows "fst y < n"
proof (rule randbelow_loop.raw_induct [rotated, OF assms])
  fix loop :: "nat \<Rightarrow> nat \<Rightarrow> world \<Rightarrow> (nat \<times> world) option" and n k w y
  assume IH: "\<And>n k w y. loop n k w = Some y \<Longrightarrow> fst y < n"
    and step: "(let p = getrandbits k w in if n \<le> fst p then loop n k (snd p) else Some p) = Some y"
  show "fst y < n"
  proof (cases "n \<le> fst (getrandbits k w)")
    case True
    with step have "loop n k (snd (getrandbits k w)) = Some y" by (simp add: Let_def)
    then show ?thesis by (rule IH)
  next
    case False
    with step show ?thesis by (auto simp: Let_def)
  qed
qed

lemma randbelow_below: "randbelow n w = Some (r, w') \<Longrightarrow> r < n"
  using randbelow_loop_below [of n "bit_length n" w "(r, w')"] by (simp add: randbelow_def)


lemma randbelow_reject:
  "n \<le> shd (rng w) mod 2 ^ k \<Longrightarrow>
   randbelow_loop n k w = randbelow_loop n k (w\<lparr>rng := stl (rng w)\<rparr>)"
  by (subst randbelow_loop.simps) (simp add: getrandbits_def Let_def)

lemma ensures_random_choice:
  assumes "seq \<noteq> []" and "\<And>x w'. x \<in> set seq \<Longrightarrow> P x w'"
  shows "ensures (random_choice seq w) P"
proof (cases "randbelow (length seq) w")
  case None
  then show ?thesis using assms(1) by (simp add: random_choice_def ensures_def)
next
  case (Some y)
  obtain i w' where y: "y = (i, w')" by (cases y)
  with Some have "i < length seq" using randbelow_below by blast
  then have "P (seq ! i) w'" using assms(2) nth_mem by blast
  then show ?thesis
    using assms(1) Some y \<open>i < length seq\<close> by (simp add: random_choice_def ensures_def)
qed

lemma ensures_randint:
  assumes "a \<le> b" and "\<And>n w'. a \<le> n \<Longrightarrow> n \<le> b \<Longrightarrow> P n w'"
  shows "ensures (randint a b w) P"
proof (cases "randbelow (nat (b + 1 - a)) w")
  case None
  then show ?thesis using assms(1) by (simp add: randint_def randrange_def ensures_def)
next
  case (Some y)
  obtain r w' where y: "y = (r, w')" by (cases y)
  with Some have "r < nat (b + 1 - a)" using randbelow_below by blast
  then have "a \<le> a + int r" "a + int r \<le> b" by linarith+
  then have "P (a + int r) w'" by (rule assms(2))
  then show ?thesis
    using assms(1) Some y by (simp add: randint_def randrange_def ensures_def)
qed

lemma random_unit_interval:
  "0 \<le> (of_nat (k mod 2 ^ 53) / 2 ^ 53 :: rat) \<and> (of_nat (k mod 2 ^ 53) / 2 ^ 53 :: rat) < 1"
proof -
  have "k mod 2 ^ 53 < (2 ^ 53 :: nat)" by simp
  then have "(of_nat (k mod 2 ^ 53) :: rat) < of_nat (2 ^ 53)"
    by (rule iffD2 [OF of_nat_less_iff])
  then have "(of_nat (k mod 2 ^ 53) :: rat) < 2 ^ 53" by simp
  then show ?thesis by (simp add: divide_less_eq)
qed

lemma ensures_random_random:
  assumes "\<And>r w'. 0 \<le> r \<Longrightarrow> r < 1 \<Longrightarrow> ensures (f (Finite r) w') Q"
  shows "ensures (case random_random w of (r, w') \<Rightarrow> f r w') Q"
  using assms random_unit_interval [of "shd (rng w)"]
  by (simp add: random_random_def del: of_nat_mod)

lemma to_bytes_little_bytes: "length (to_bytes_little x n) = n \<and> (\<forall>b\<in>set (to_bytes_little x n). b < 256)"
  by (simp add: to_bytes_little_def)

lemma ensures_randbytes:
  assumes "\<And>bs w'. length bs = n \<Longrightarrow> \<forall>b\<in>set bs. b < 256 \<Longrightarrow> ensures (f bs w') Q"
  shows "ensures (case randbytes n w of (bs, w') \<Rightarrow> f bs w') Q"
  using assms to_bytes_little_bytes by (simp add: randbytes_def getrandbits_def)

text \<open>The bisection stays between its bounds, and the running sums are as many as the weights.\<close>

lemma bisect_right_bounds:
  "lo \<le> hi \<Longrightarrow> lo \<le> bisect_right a x lo hi \<and> bisect_right a x lo hi \<le> hi"
proof (induction a x lo hi rule: bisect_right.induct)
  case (1 a x lo hi)
  show ?case
  proof (cases "lo < hi")
    case False
    then have "bisect_right a x lo hi = lo" by (subst bisect_right.simps) simp
    with "1.prems" show ?thesis by simp
  next
    case True
    let ?mid = "(lo + hi) div 2"
    have mid: "lo \<le> ?mid" "?mid < hi" using True by auto
    show ?thesis
    proof (cases "float_lt_number x (a ! ?mid)")
      case True
      have "bisect_right a x lo hi = bisect_right a x lo ?mid"
        using \<open>lo < hi\<close> True by (subst bisect_right.simps) (simp add: Let_def)
      with "1.IH"(1) [OF \<open>lo < hi\<close> refl True] mid show ?thesis by simp
    next
      case False
      have "bisect_right a x lo hi = bisect_right a x (?mid + 1) hi"
        using \<open>lo < hi\<close> False by (subst bisect_right.simps) (simp add: Let_def)
      with "1.IH"(2) [OF \<open>lo < hi\<close> refl False] mid show ?thesis by simp
    qed
  qed
qed

lemma length_accumulate_from: "accumulate_from acc xs = Inr ts \<Longrightarrow> length ts = length xs"
  by (induction xs arbitrary: acc ts) (auto split: sum.splits)

lemma length_accumulate: "accumulate xs = Inr ts \<Longrightarrow> length ts = length xs"
  by (cases xs) (auto split: sum.splits dest: length_accumulate_from)

lemma weighted_choice_key:
  assumes "choices \<noteq> []" and "total_weight choices = Inr tot"
    and "flt (Finite 0) tot" and "isfinite tot"
  shows "\<exists>k w'. weighted_choice choices w = Inr (k, w') \<and> k \<in> fst ` set choices"
proof -
  let ?n = "length choices"
  from assms(2) obtain cum where cum: "accumulate (map snd choices) = Inr cum"
    by (auto simp: total_weight_def split: sum.splits)
  with assms(2) have ne: "cum \<noteq> []" and tot: "add_float (last cum) (Finite 0) = Inr tot"
    by (auto simp: total_weight_def split: if_splits)
  have len: "length cum = ?n" using length_accumulate [OF cum] by simp
  from assms(3,4) obtain t where t: "tot = Finite t" "0 < t"
    by (cases tot) (auto simp: flt_def isfinite_def)
  then have guard: "\<not> fle tot (Finite 0)" by (simp add: fle_def flt_def)
  obtain r w' where r: "random_random w = (r, w')" by (cases "random_random w")
  let ?i = "bisect_right cum (fmul r tot) 0 (?n - 1)"
  have "?i \<le> ?n - 1" using bisect_right_bounds [of 0 "?n - 1"] by simp
  then have i: "?i < ?n" using assms(1) by (cases choices) auto
  then have "map fst choices ! ?i \<in> fst ` set choices"
    using nth_mem [of ?i "map fst choices"] by simp
  moreover have "weighted_choice choices w = Inr (map fst choices ! ?i, w')"
    using cum ne tot len guard assms(4) r i
    by (simp add: weighted_choice_def random_choices_def Let_def)
  ultimately show ?thesis by blast
qed

lemma total_weight_LOG_LEVELS:
  "total_weight LOG_LEVELS = Inr (Finite (9007199254740991 / 9007199254740992))"
  by code_simp

lemma flt_0_pos: "0 < t \<Longrightarrow> flt (Finite 0) (Finite t)"
  by (simp add: flt_def)

lemma ensures_levels:
  assumes "\<And>level w'. level = ''INFO'' \<or> level = ''WARN'' \<or> level = ''ERROR'' \<Longrightarrow> P level w'"
  shows "ensures (Some (weighted_choice LOG_LEVELS w)) P"
proof -
  have "LOG_LEVELS \<noteq> []" by (simp add: LOG_LEVELS_def)
  moreover have "flt (Finite 0) (Finite (9007199254740991 / 9007199254740992))"
    by (rule flt_0_pos) simp
  moreover have "isfinite (Finite (9007199254740991 / 9007199254740992))"
    by (simp add: isfinite_def)
  ultimately obtain k w' where k: "weighted_choice LOG_LEVELS w = Inr (k, w')"
    "k \<in> fst ` set LOG_LEVELS"
    using weighted_choice_key [OF _ total_weight_LOG_LEVELS] by blast
  from k(2) have "k = ''INFO'' \<or> k = ''WARN'' \<or> k = ''ERROR''"
    by (auto simp: LOG_LEVELS_def)
  then have "P k w'" by (rule assms)
  with k(1) show ?thesis by (simp add: ensures_def)
qed

lemma hosts_of_service:
  "service \<in> set SERVICES \<Longrightarrow> \<exists>hosts. map_of HOSTS service = Some hosts \<and> hosts \<noteq> []"
  by (auto simp: SERVICES_def HOSTS_def)

lemma ensures_hosts:
  assumes "service \<in> set SERVICES"
    and "\<And>hosts. map_of HOSTS service = Some hosts \<Longrightarrow> hosts \<noteq> [] \<Longrightarrow> ensures (f hosts) Q"
  shows "ensures (case dict_get HOSTS service of Inl e \<Rightarrow> Some (Inl e) | Inr hosts \<Rightarrow> f hosts) Q"
  using hosts_of_service [OF assms(1)] assms(2) by (auto simp: dict_get_def)

lemma status_codes_simps:
  "dict_get STATUS_CODES ''INFO'' = Inr [200, 201, 204]"
  "dict_get STATUS_CODES ''WARN'' = Inr [200, 402]"
  "dict_get STATUS_CODES ''ERROR'' = Inr [500, 503, 504, 409]"
  by (simp_all add: dict_get_def STATUS_CODES_def)

lemma catalogs_nonempty:
  "SERVICES \<noteq> []" "INFO_MESSAGES \<noteq> []" "WARN_MESSAGES \<noteq> []" "ERROR_MESSAGES \<noteq> []"
  by (simp_all add: SERVICES_def INFO_MESSAGES_def WARN_MESSAGES_def ERROR_MESSAGES_def)



lemmas ensures_rules =
  ensures_rbind ensures_if ensures_levels ensures_random_choice ensures_randint
  ensures_hosts ensures_randbytes ensures_pair ensures_Inr

lemmas generator_defs =
  generate_log_event_def info_branch_def warn_branch_def error_branch_def

section \<open>weighted\_choice\<close>

text \<open>
  C10, as the code has it. For every non-empty mapping of outcomes to weights whose
  total, as \<open>random.choices\<close> computes it (the last running sum plus \<open>0.0\<close>), is
  a float that is positive and finite, \<open>weighted_choice\<close> raises nothing and returns
  one of the keys of the mapping.
\<close>

theorem weighted_choice_returns_key:
  assumes "choices \<noteq> []" and "total_weight choices = Inr tot"
    and "flt (Finite 0) tot" and "isfinite tot"
  shows "\<exists>k w'. weighted_choice choices w = Inr (k, w') \<and> k \<in> fst ` set choices"
  using assms by (rule weighted_choice_key)

theorem weighted_choice_returns_key_witness:
  "LOG_LEVELS \<noteq> [] \<and>
   total_weight LOG_LEVELS = Inr (Finite (9007199254740991 / 9007199254740992)) \<and>
   flt (Finite 0) (Finite (9007199254740991 / 9007199254740992)) \<and>
   isfinite (Finite (9007199254740991 / 9007199254740992)) \<and>
   (\<exists>k w'. weighted_choice LOG_LEVELS (scripted []) = Inr (k, w') \<and>
      k \<in> fst ` set LOG_LEVELS)"
proof -
  have ne: "LOG_LEVELS \<noteq> []" by (simp add: LOG_LEVELS_def)
  have pos: "flt (Finite 0) (Finite (9007199254740991 / 9007199254740992))"
    by (rule flt_0_pos) simp
  have fin: "isfinite (Finite (9007199254740991 / 9007199254740992))"
    by (simp add: isfinite_def)
  show ?thesis
    using ne pos fin total_weight_LOG_LEVELS
      weighted_choice_returns_key [OF ne total_weight_LOG_LEVELS pos fin, of "scripted []"]
    by blast
qed

text \<open>
  C10 as stated asks only for a positive total. Two weights of \<open>2 ^ 1023\<close>, each a
  finite double, have the total \<open>inf\<close>, which is positive, and \<open>random.choices\<close>
  raises ValueError for a total that is not finite.
\<close>

lemma floor_log2_pow2: "floor_log2 (2 ^ n) = int n"
proof -
  have "(2::rat) ^ n = Rat.of_int (2 ^ n)" by (simp add: Rat.of_int_def)
  then have q: "quotient_of ((2::rat) ^ n) = (2 ^ n, 1)"
    using quotient_of_int [of "2 ^ n"] by (simp only:)
  have b: "bitlen (2 ^ n) = int n + 1"
    using bitlen_twopow_add_eq [of 0 n] by simp
  have b1: "bitlen 1 = 1" by (simp add: bitlen_alt_def)
  have c: "(2::rat) powi int n \<le> 2 ^ n" by simp
  have "floor_log2 (2 ^ n) =
          (if (2::rat) powi (int n + 1 - 1) \<le> 2 ^ n then int n + 1 - 1 else int n + 1 - 1 - 1)"
    unfolding floor_log2_def q prod.case Let_def b b1 ..
  then show ?thesis using c by simp
qed

lemma round_half_even_int: "round_half_even (of_int k) = k"
  by (simp add: round_half_even_def Let_def)

lemma double_of_pow2:
  assumes "52 \<le> n"
  shows "double_of (2 ^ n) = (if 1024 \<le> n then PosInf else Finite (2 ^ n))"
proof -
  let ?e = "int n - 52"
  have e: "max (int n - 52) (- 1074) = ?e"
    using assms by simp
  have "(2::rat) ^ n / 2 powi ?e = 2 powi (int n - ?e)"
    by (simp add: power_int_diff)
  also have "\<dots> = of_int (2 ^ 52)" by simp
  finally have m: "round_half_even (2 ^ n / 2 powi ?e) = 2 ^ 52"
    by (simp only: round_half_even_int)
  have "(2::rat) powi ?e = 2 ^ n / 2 ^ 52" by (simp add: power_int_diff)
  then have y: "of_int (2 ^ 52) * 2 powi ?e = (2::rat) ^ n" by simp
  have a: "\<bar>(2::rat) ^ n\<bar> = 2 ^ n" by simp
  have nz: "((2::rat) ^ n = 0) = False" "(0 < (2::rat) ^ n) = True" by simp_all
  have ge: "(1024 \<le> int n) = (1024 \<le> n)" by simp
  show ?thesis
    unfolding double_of_def Let_def a floor_log2_pow2 e m y a floor_log2_pow2 nz ge
    by (simp only: if_False if_True)
qed

lemma fadd_huge: "fadd (Finite huge) (Finite huge) = PosInf"
proof -
  have "huge + huge = 2 ^ 1024" by (simp add: huge_def)
  then have "double_of (huge + huge) = PosInf"
    using double_of_pow2 [of 1024] by (simp only:) simp
  then show ?thesis by (simp only: fadd_def pyfloat.case)
qed

lemma huge_double: "double_of huge = Finite huge"
  unfolding huge_def using double_of_pow2 [of 1023] by (simp only:) simp

lemma accumulate_huge:
  "accumulate (map snd huge_weights) = Inr [FloatN (Finite huge), FloatN PosInf]"
  by (simp add: huge_weights_def py_add_def add_float_def fadd_huge)

lemma total_weight_huge: "total_weight huge_weights = Inr PosInf"
  by (simp add: total_weight_def accumulate_huge add_float_def fadd_def)

lemma weighted_choice_huge: "weighted_choice huge_weights w = Inl ValueError"
proof -
  have "random_choices (map fst huge_weights) (map snd huge_weights) w = Inl ValueError"
    unfolding random_choices_def Let_def accumulate_huge
    by (simp add: huge_weights_def add_float_def fadd_def fle_def flt_def isfinite_def)
  then show ?thesis by (simp add: weighted_choice_def)
qed

theorem weighted_choice_infinite_total:
  "huge_weights \<noteq> [] \<and> double_of huge = Finite huge \<and>
   total_weight huge_weights = Inr PosInf \<and> flt (Finite 0) PosInf \<and>
   weighted_choice huge_weights (scripted []) = Inl ValueError"
proof -
  have "huge_weights \<noteq> []" by (simp add: huge_weights_def)
  moreover have "flt (Finite 0) PosInf" by (simp add: flt_def)
  ultimately show ?thesis
    using huge_double total_weight_huge weighted_choice_huge by blast
qed

text \<open>The other error branches: an empty mapping, a total of zero, an int too large.\<close>

lemma weighted_choice_empty: "weighted_choice ([] :: (string \<times> number) list) w = Inl IndexError"
  by (simp add: weighted_choice_def random_choices_def)

lemma weighted_choice_zero_total: "weighted_choice [(k, IntN 0)] w = Inl ValueError"
  by (simp add: weighted_choice_def random_choices_def add_float_def int_to_float_def
      double_of_def fadd_def fle_def)

lemma weighted_choice_int_overflow: "weighted_choice [(k, IntN (2 ^ 1024))] w = Inl OverflowError"
proof -
  have "double_of (of_int (2 ^ 1024)) = PosInf"
    using double_of_pow2 [of 1024] by simp
  then show ?thesis
    by (simp add: weighted_choice_def random_choices_def add_float_def int_to_float_def)
qed

section \<open>Runs on concrete worlds\<close>


















lemma timestamp_noon: "str_replace (isoformat noon) ''+00:00'' ''Z'' = ''2025-01-02T12:00:00Z''"
  by (simp add: str_replace_def isoformat_def noon_def zero_pad_def str_nat.simps digit_char_def
      replace_nonempty.simps)





section \<open>generate\_log\_event\<close>







lemma level_ensured:
  "ensures (generate_log_event w)
     (\<lambda>ev w'. map_of ev ''level'' = Some (PStr ''INFO'') \<or>
        map_of ev ''level'' = Some (PStr ''WARN'') \<or> map_of ev ''level'' = Some (PStr ''ERROR''))"
  apply (simp only: generator_defs Let_def status_codes_simps sum.case)
  apply (rule ensures_rules | simp add: catalogs_nonempty split_beta | blast)+
  done

text \<open>The generator raises in no world.\<close>

lemma generate_log_event_never_raises: "generate_log_event w \<noteq> Some (Inl e)"
  by (rule ensures_no_raise [OF level_ensured])


subsection \<open>Base fields\<close>



subsection \<open>The ip\_address field\<close>




subsection \<open>ERROR events\<close>



subsection \<open>Host and request id\<close>






subsection \<open>Status codes and durations\<close>



end
